theory Spec2Isabelle
  imports Main "HOL-Library.Code_Target_Numeral"
begin

section \<open>Strings and cells\<close>

text \<open>
  A JavaScript string is a sequence of UTF-16 code units. The model covers the strings
  whose code units are all below 256: a \<^typ>\<open>char\<close> stands for the code unit with
  the same number (\<^term>\<open>of_char c :: nat\<close>).
\<close>

definition is_ws :: "char \<Rightarrow> bool" where
  \<comment> \<open>WhiteSpace and LineTerminator code units below 256: TAB, LF, VT, FF, CR, SP, NBSP\<close>
  "is_ws c = (let n = (of_char c :: nat) in (9 \<le> n \<and> n \<le> 13) \<or> n = 32 \<or> n = 160)"

definition trim :: "string \<Rightarrow> string" where
  \<comment> \<open>\<open>String.prototype.trim\<close>\<close>
  "trim s = rev (dropWhile is_ws (rev (dropWhile is_ws s)))"

definition strip_commas :: "string \<Rightarrow> string" where
  \<comment> \<open>\<open>s.replace(/,/g, '')\<close>\<close>
  "strip_commas s = filter (\<lambda>c. c \<noteq> CHR '','') s"

definition upper_char :: "char \<Rightarrow> string" where
  \<comment> \<open>Upper-casing of one code unit below 256. U+00DF gives two code units; U+00B5 and
      U+00FF have upper-case forms above 255 and are left as they are (neither form is an
      ASCII letter).\<close>
  "upper_char c =
     (let n = (of_char c :: nat) in
      if (97 \<le> n \<and> n \<le> 122) \<or> (224 \<le> n \<and> n \<le> 254 \<and> n \<noteq> 247) then [char_of (n - 32)]
      else if n = 223 then ''SS''
      else [c])"

definition toUpperCase :: "string \<Rightarrow> string" where
  "toUpperCase s = concat (map upper_char s)"

definition is_digit :: "char \<Rightarrow> bool" where
  "is_digit c = (let n = (of_char c :: nat) in 48 \<le> n \<and> n \<le> 57)"

definition digit_val :: "char \<Rightarrow> nat" where
  "digit_val c = of_char c - 48"

definition digit_char :: "nat \<Rightarrow> char" where
  "digit_char d = char_of (48 + d)"

definition nat_of_digits :: "string \<Rightarrow> nat" where
  \<comment> \<open>the number written by a string of decimal digits\<close>
  "nat_of_digits ds = foldl (\<lambda>a c. 10 * a + digit_val c) 0 ds"

fun digits_of :: "nat \<Rightarrow> string" where
  \<comment> \<open>the decimal digits of a natural number, \<open>0\<close> written as one digit\<close>
  "digits_of n = (if n < 10 then [digit_char n] else digits_of (n div 10) @ [digit_char (n mod 10)])"

declare digits_of.simps [simp del]

definition pad_zeros :: "nat \<Rightarrow> string \<Rightarrow> string" where
  \<comment> \<open>\<open>s.padStart(k, '0')\<close>\<close>
  "pad_zeros k s = replicate (k - length s) (CHR ''0'') @ s"

section \<open>Numbers\<close>

text \<open>
  A Number is an IEEE 754 double. A finite double is kept exactly, as a sign, a mantissa
  \<open>m\<close> and a binary exponent \<open>e\<close> standing for \<open>m \<times> 2\<^sup>e\<close>; \<open>Fin True 0 0\<close> is the
  negative zero; \<open>Infinite True\<close> is \<open>-Infinity\<close>. \<open>parseFloat\<close>, \<open>toFixed\<close> and
  Number::toString follow ECMAScript, with a decimal literal rounded to the nearest double
  whatever its length, as the engines do.
\<close>

datatype number = NaN | Infinite bool | Fin bool nat int

definition isNaN :: "number \<Rightarrow> bool" where
  "isNaN x = (x = NaN)"

fun num_gt0 :: "number \<Rightarrow> bool" where
  \<comment> \<open>\<open>x > 0\<close>\<close>
  "num_gt0 NaN = False"
| "num_gt0 (Infinite s) = (\<not> s)"
| "num_gt0 (Fin s m e) = (\<not> s \<and> 0 < m)"

fun num_lt0 :: "number \<Rightarrow> bool" where
  \<comment> \<open>\<open>x < 0\<close>\<close>
  "num_lt0 NaN = False"
| "num_lt0 (Infinite s) = s"
| "num_lt0 (Fin s m e) = (s \<and> 0 < m)"

fun num_abs :: "number \<Rightarrow> number" where
  \<comment> \<open>\<open>Math.abs\<close>\<close>
  "num_abs NaN = NaN"
| "num_abs (Infinite s) = Infinite False"
| "num_abs (Fin s m e) = Fin False m e"

fun bits :: "nat \<Rightarrow> nat" where
  \<comment> \<open>the number of binary digits\<close>
  "bits n = (if n = 0 then 0 else Suc (bits (n div 2)))"

declare bits.simps [simp del]

definition round_half_even :: "nat \<Rightarrow> nat \<Rightarrow> nat" where
  \<comment> \<open>the integer nearest to \<open>p / q\<close>, the even one of two\<close>
  "round_half_even p q =
     (let d = p div q; r = p mod q in
      if 2 * r < q then d else if q < 2 * r then d + 1 else if even d then d else d + 1)"

definition to_double :: "bool \<Rightarrow> nat \<Rightarrow> nat \<Rightarrow> number" where
  \<comment> \<open>the Number value of the rational \<open>\<plusminus> p / q\<close> (\<open>q > 0\<close>): round to nearest, ties to even,
      with gradual underflow below \<open>2\<^sup>-\<^sup>1\<^sup>0\<^sup>2\<^sup>2\<close> and overflow to infinity\<close>
  "to_double s p q =
     (if p = 0 then Fin s 0 0
      else
        let d = int (bits p) - int (bits q);
            e = (if q * 2 ^ nat d \<le> p * 2 ^ nat (- d) then d else d - 1);
            ex = max (e - 52) (- 1074);
            m = round_half_even (p * 2 ^ nat (- ex)) (q * 2 ^ nat ex)
        in if m = 0 then Fin s 0 0
           else if m = 2 ^ 53 then (if 971 < ex + 1 then Infinite s else Fin s (2 ^ 52) (ex + 1))
           else if 971 < ex then Infinite s
           else Fin s m ex)"

definition split_sign :: "string \<Rightarrow> bool \<times> string" where
  \<comment> \<open>an optional leading \<open>+\<close> or \<open>-\<close>\<close>
  "split_sign t =
     (case t of
        [] \<Rightarrow> (False, [])
      | c # r \<Rightarrow> if c = CHR ''-'' then (True, r) else if c = CHR ''+'' then (False, r) else (False, t))"

definition exponent_part :: "string \<Rightarrow> int" where
  \<comment> \<open>the value of a leading ExponentPart (\<open>e\<close> or \<open>E\<close>, an optional sign, digits), 0 when
      there is none\<close>
  "exponent_part r =
     (case r of
        [] \<Rightarrow> 0
      | c # r' \<Rightarrow>
          if c = CHR ''e'' \<or> c = CHR ''E'' then
            (let sg = fst (split_sign r'); ds = takeWhile is_digit (snd (split_sign r')) in
             if ds = [] then 0
             else if sg then - int (nat_of_digits ds) else int (nat_of_digits ds))
          else 0)"

definition parseFloat :: "string \<Rightarrow> number" where
  \<comment> \<open>\<open>parseFloat\<close>: leading white space is skipped, the longest prefix that is a
      StrDecimalLiteral is read, and its value is rounded to a double; \<open>NaN\<close> when no prefix
      is one\<close>
  "parseFloat input =
     (let t = dropWhile is_ws input;
          neg = fst (split_sign t);
          u = snd (split_sign t)
      in if take 8 u = ''Infinity'' then Infinite neg
         else
           let ip = takeWhile is_digit u;
               r1 = dropWhile is_digit u;
               has_dot = (case r1 of [] \<Rightarrow> False | c # _ \<Rightarrow> c = CHR ''.'');
               fp = (if has_dot then takeWhile is_digit (tl r1) else []);
               r2 = (if has_dot then dropWhile is_digit (tl r1) else r1)
           in if ip = [] \<and> fp = [] then NaN
              else
                let k = exponent_part r2 - int (length fp)
                in to_double neg (nat_of_digits (ip @ fp) * 10 ^ nat k) (10 ^ nat (- k)))"

function shortest_digits :: "nat \<Rightarrow> nat \<Rightarrow> nat \<Rightarrow> nat \<times> nat" where
  \<comment> \<open>Number::toString for an integral double \<open>N\<close> of \<open>n\<close> decimal digits: the least \<open>k\<close>,
      searched from \<open>k\<close> upwards, with an \<open>s\<close> of \<open>k\<close> digits and an \<open>n'\<close> such that
      \<open>s \<times> 10\<^sup>n\<^sup>'\<^sup>-\<^sup>k\<close> rounds to \<open>N\<close>; the result is \<open>(s, n')\<close>. The candidates are \<open>N\<close> cut
      to its first \<open>k\<close> digits and that number plus one (which may reach \<open>10\<^sup>k\<close>, written
      \<open>10\<^sup>k\<^sup>-\<^sup>1\<close> with \<open>n + 1\<close>); of two that fit the one nearer to \<open>N\<close>, the lower on a tie\<close>
  "shortest_digits N n k =
     (let u = 10 ^ (n - k);
          lo = N div u;
          hi = lo + 1;
          ok_lo = (to_double False (lo * u) 1 = to_double False N 1);
          ok_hi = (to_double False (hi * u) 1 = to_double False N 1);
          up = (if hi = 10 ^ k then (10 ^ (k - 1), n + 1) else (hi, n))
      in if ok_lo \<and> ok_hi then (if N - lo * u \<le> hi * u - N then (lo, n) else up)
         else if ok_lo then (lo, n)
         else if ok_hi then up
         else if k < n then shortest_digits N n (k + 1)
         else (N, n))"
  by pat_completeness auto
termination
  by (relation "measure (\<lambda>(N, n, k). n - k)") auto

declare shortest_digits.simps [simp del]

definition big_toString :: "nat \<Rightarrow> string" where
  \<comment> \<open>Number::toString of an integral double \<open>N \<ge> 10\<^sup>2\<^sup>1\<close>: exponent notation\<close>
  "big_toString N =
     (let sn = shortest_digits N (length (digits_of N)) 1;
          ds = digits_of (fst sn)
      in (if length ds = 1 then ds else take 1 ds @ ''.'' @ drop 1 ds) @ ''e+'' @
         digits_of (snd sn - 1))"

definition two_decimals :: "nat \<Rightarrow> string" where
  \<comment> \<open>the digits of \<open>n\<close>, at least three of them, with a point before the last two\<close>
  "two_decimals n =
     (let ds = pad_zeros 3 (digits_of n)
      in take (length ds - 2) ds @ ''.'' @ drop (length ds - 2) ds)"

fun toFixed2 :: "number \<Rightarrow> string" where
  \<comment> \<open>\<open>x.toFixed(2)\<close>: for \<open>|x| < 10\<^sup>2\<^sup>1\<close> the integer \<open>n\<close> nearest to \<open>100 \<times> |x|\<close> (the
      larger of two) is written with two decimals; a larger \<open>x\<close> is written by
      Number::toString\<close>
  "toFixed2 NaN = ''NaN''"
| "toFixed2 (Infinite s) = (if s then ''-Infinity'' else ''Infinity'')"
| "toFixed2 (Fin s m e) =
     (let sg = (if s \<and> 0 < m then ''-'' else []);
          num = m * 2 ^ nat e;
          den = 2 ^ nat (- e)
      in if 10 ^ 21 * den \<le> num then sg @ big_toString (num div den)
         else sg @ two_decimals ((200 * num + den) div (2 * den)))"

section \<open>Dates\<close>

text \<open>
  A Date is kept as the calendar date it shows in the local time zone; the time of day
  and the time-zone arithmetic of the library are not modelled. date-fns is a library
  the repository imports, not code of its own: its \<open>parse\<close> is a parameter of the
  normalizer, which may throw, return the invalid date, or return a date.
\<close>

record jsdate =
  year :: int
  month :: nat
  day :: nat

datatype parse_outcome = Threw | Invalid_Date | Valid jsdate

type_synonym date_parser = "string \<Rightarrow> string \<Rightarrow> jsdate \<Rightarrow> parse_outcome"

definition format_ddMMyyyy :: "jsdate \<Rightarrow> string" where
  \<comment> \<open>\<open>format(d, 'dd-MM-yyyy')\<close> of date-fns on a valid date\<close>
  "format_ddMMyyyy d =
     pad_zeros 2 (digits_of (day d)) @ ''-'' @ pad_zeros 2 (digits_of (month d)) @ ''-'' @
     pad_zeros 4 (digits_of (nat (if 0 < year d then year d else 1 - year d)))"

subsection \<open>The numeric day, month and year patterns of date-fns\<close>

text \<open>
  \<open>date_fns_parse\<close> describes \<open>parse\<close> of date-fns (version 2 and later) on the format
  strings built from the tokens \<open>dd\<close>, \<open>MM\<close> and \<open>yyyy\<close>, each at most once, and literal
  characters that are neither Latin letters, quotes nor line breaks: the formats
  \<open>dd/MM/yyyy\<close>, \<open>MM/dd/yyyy\<close>, \<open>yyyy-MM-dd\<close> and \<open>dd-MM-yyyy\<close> among them. The library is
  not under \<open>src\<close>; the model follows the library's own parsers: \<open>dd\<close> and \<open>MM\<close> read one
  or two digits and \<open>yyyy\<close> one to four, a literal must stand in the input as it is, what
  is left over must be white space, and the fields are then set on the reference date,
  year first, then month, then day, each checked before it is set. On any other format
  string the model answers \<open>Threw\<close>, which is what the library does for an unescaped
  letter that is no token, and is not meant to describe the library's other tokens.
\<close>

datatype token = TDay | TMonth | TYear | TLit char

definition is_latin_letter :: "char \<Rightarrow> bool" where
  "is_latin_letter c = (let n = (of_char c :: nat) in (65 \<le> n \<and> n \<le> 90) \<or> (97 \<le> n \<and> n \<le> 122))"

definition classify :: "char \<Rightarrow> nat \<Rightarrow> token list option" where
  \<comment> \<open>the tokens of a run of \<open>n\<close> equal characters \<open>c\<close>\<close>
  "classify c n =
     (if c = CHR ''d'' \<and> n = 2 then Some [TDay]
      else if c = CHR ''M'' \<and> n = 2 then Some [TMonth]
      else if c = CHR ''y'' \<and> n = 4 then Some [TYear]
      else if is_latin_letter c \<or> c = CHR 0x27 \<or> c = CHR 0x0A \<or> c = CHR 0x0D then None
      else Some (replicate n (TLit c)))"

function tokenize :: "string \<Rightarrow> token list option" where
  "tokenize [] = Some []"
| "tokenize (c # cs) =
     (case classify c (Suc (length (takeWhile (\<lambda>x. x = c) cs))) of
        None \<Rightarrow> None
      | Some ts \<Rightarrow>
          (case tokenize (dropWhile (\<lambda>x. x = c) cs) of
             None \<Rightarrow> None
           | Some r \<Rightarrow> Some (ts @ r)))"
  by pat_completeness auto
termination
  by (relation "measure length") (auto simp: length_dropWhile_le less_Suc_eq_le)

fun is_field :: "token \<Rightarrow> bool" where
  "is_field (TLit c) = False"
| "is_field t = True"

definition read_digits :: "nat \<Rightarrow> string \<Rightarrow> (nat \<times> string) option" where
  \<comment> \<open>the pattern \<open>/^\\d{1,n}/\<close>: one to \<open>n\<close> leading digits and the rest\<close>
  "read_digits n s =
     (let ds = takeWhile is_digit (take n s) in
      if ds = [] then None else Some (nat_of_digits ds, drop (length ds) s))"

record fields =
  f_year :: "nat option"
  f_month :: "nat option"
  f_day :: "nat option"

fun match_tokens :: "token list \<Rightarrow> string \<Rightarrow> fields \<Rightarrow> (fields \<times> string) option" where
  "match_tokens [] s f = Some (f, s)"
| "match_tokens (TLit c # ts) s f =
     (case s of [] \<Rightarrow> None | x # r \<Rightarrow> if x = c then match_tokens ts r f else None)"
| "match_tokens (TDay # ts) s f =
     (case read_digits 2 s of None \<Rightarrow> None | Some (v, r) \<Rightarrow> match_tokens ts r (f\<lparr>f_day := Some v\<rparr>))"
| "match_tokens (TMonth # ts) s f =
     (case read_digits 2 s of None \<Rightarrow> None | Some (v, r) \<Rightarrow> match_tokens ts r (f\<lparr>f_month := Some v\<rparr>))"
| "match_tokens (TYear # ts) s f =
     (case read_digits 4 s of None \<Rightarrow> None | Some (v, r) \<Rightarrow> match_tokens ts r (f\<lparr>f_year := Some v\<rparr>))"

definition is_leap_year :: "int \<Rightarrow> bool" where
  "is_leap_year y = (y mod 400 = 0 \<or> (y mod 4 = 0 \<and> y mod 100 \<noteq> 0))"

definition days_in_month :: "int \<Rightarrow> nat \<Rightarrow> nat" where
  "days_in_month y m =
     (if m = 2 then (if is_leap_year y then 29 else 28)
      else if m = 4 \<or> m = 6 \<or> m = 9 \<or> m = 11 then 30
      else 31)"

fun set_year :: "nat option \<Rightarrow> jsdate \<Rightarrow> jsdate option" where
  \<comment> \<open>the year setter (priority 130): valid when positive, then 1 January of that year\<close>
  "set_year None r = Some r"
| "set_year (Some y) r = (if 0 < y then Some \<lparr>year = int y, month = 1, day = 1\<rparr> else None)"

fun set_month :: "nat option \<Rightarrow> jsdate \<Rightarrow> jsdate option" where
  \<comment> \<open>the month setter (priority 110): valid from 1 to 12, then the first of that month\<close>
  "set_month None r = Some r"
| "set_month (Some v) r = (if 1 \<le> v \<and> v \<le> 12 then Some (r\<lparr>month := v, day := 1\<rparr>) else None)"

fun set_day :: "nat option \<Rightarrow> jsdate \<Rightarrow> jsdate option" where
  \<comment> \<open>the day setter (priority 90): valid within the month reached so far\<close>
  "set_day None r = Some r"
| "set_day (Some v) r =
     (if 1 \<le> v \<and> v \<le> days_in_month (year r) (month r) then Some (r\<lparr>day := v\<rparr>) else None)"

definition apply_setters :: "fields \<Rightarrow> jsdate \<Rightarrow> jsdate option" where
  "apply_setters f r =
     (case set_year (f_year f) r of
        None \<Rightarrow> None
      | Some r1 \<Rightarrow>
          (case set_month (f_month f) r1 of
             None \<Rightarrow> None
           | Some r2 \<Rightarrow> set_day (f_day f) r2))"

definition date_fns_parse :: date_parser where
  "date_fns_parse s fmt ref =
     (if fmt = [] then (if s = [] then Valid ref else Invalid_Date)
      else
        case tokenize fmt of
          None \<Rightarrow> Threw
        | Some ts \<Rightarrow>
            if distinct (filter is_field ts) then
              (case match_tokens ts s \<lparr>f_year = None, f_month = None, f_day = None\<rparr> of
                 None \<Rightarrow> Invalid_Date
               | Some (f, rest) \<Rightarrow>
                   if list_all is_ws rest then
                     (case apply_setters f ref of None \<Rightarrow> Invalid_Date | Some d \<Rightarrow> Valid d)
                   else Invalid_Date)
            else Threw)"

section \<open>The normalizer\<close>

text \<open>
  \<open>parseTransactions\<close> of \<open>src/utils/csvParser.ts\<close>. The index fields of the mapping are
  integers, in the range that a double holds exactly (beyond \<open>2\<^sup>5\<^sup>3\<close> in magnitude the
  \<open>i++\<close> of the loop no longer counts); a row or a cell that is \<open>undefined\<close> or \<open>null\<close> is
  \<open>None\<close>.
\<close>

type_synonym cell = "string option"

type_synonym row = "cell list"

record mapping =
  headerRowIndex :: int
  dateColumnIndex :: int
  dateFormat :: string
  descriptionColumnIndex :: int
  debitColumnIndex :: int
  creditColumnIndex :: int
  balanceColumnIndex :: int
  chequeNoColumnIndex :: int
  isSingleAmountColumn :: bool
  amountColumnIndex :: int
  typeColumnIndex :: int

record transaction =
  date :: string
  chqNo :: string
  particulars :: string
  dr :: string
  cr :: string
  bal :: string
  sol :: string

definition js_index :: "'a option list \<Rightarrow> int \<Rightarrow> 'a option" where
  \<comment> \<open>\<open>xs[i]\<close>: \<open>undefined\<close> outside the array\<close>
  "js_index xs i = (if 0 \<le> i \<and> i < int (length xs) then xs ! nat i else None)"

definition cell_text :: "row \<Rightarrow> int \<Rightarrow> string" where
  \<comment> \<open>\<open>row[i]?.trim() || ''\<close>\<close>
  "cell_text r i = (case js_index r i of None \<Rightarrow> [] | Some c \<Rightarrow> trim c)"

definition blank_cell :: "cell \<Rightarrow> bool" where
  \<comment> \<open>\<open>!cell || cell.trim() === ''\<close>\<close>
  "blank_cell c = (case c of None \<Rightarrow> True | Some s \<Rightarrow> s = [] \<or> trim s = [])"

definition format_date_cell :: "date_parser \<Rightarrow> jsdate \<Rightarrow> mapping \<Rightarrow> string \<Rightarrow> string" where
  \<comment> \<open>lines 27 to 37: the inner \<open>try\<close> catches what \<open>parse\<close> throws\<close>
  "format_date_cell P now m dateStr =
     (if dateFormat m \<noteq> [] then
        (case P dateStr (dateFormat m) now of
           Valid d \<Rightarrow> format_ddMMyyyy d
         | Invalid_Date \<Rightarrow> dateStr
         | Threw \<Rightarrow> dateStr)
      else dateStr)"

definition debit_credit :: "mapping \<Rightarrow> row \<Rightarrow> string \<times> string" where
  \<comment> \<open>lines 41 to 73: the pair \<open>(dr, cr)\<close>\<close>
  "debit_credit m r =
     (if isSingleAmountColumn m then
        (let amountStr = cell_text r (amountColumnIndex m);
             amount = parseFloat (strip_commas amountStr)
         in if \<not> isNaN amount then
              (if 0 \<le> typeColumnIndex m then
                 (let typeStr = toUpperCase (cell_text r (typeColumnIndex m))
                  in if typeStr = ''DR'' \<or> typeStr = ''DEBIT'' \<or> typeStr = ''WITHDRAWAL''
                     then (toFixed2 (num_abs amount), [])
                     else ([], toFixed2 (num_abs amount)))
               else
                 (if num_lt0 amount then (toFixed2 (num_abs amount), [])
                  else ([], toFixed2 (num_abs amount))))
            else ([], []))
      else
        (let drStr = (if 0 \<le> debitColumnIndex m then cell_text r (debitColumnIndex m) else []);
             crStr = (if 0 \<le> creditColumnIndex m then cell_text r (creditColumnIndex m) else []);
             parsedDr = parseFloat (strip_commas drStr);
             parsedCr = parseFloat (strip_commas crStr)
         in (if \<not> isNaN parsedDr \<and> num_gt0 parsedDr then toFixed2 parsedDr else [],
             if \<not> isNaN parsedCr \<and> num_gt0 parsedCr then toFixed2 parsedCr else [])))"

definition balance_text :: "mapping \<Rightarrow> row \<Rightarrow> string" where
  \<comment> \<open>lines 75 to 77\<close>
  "balance_text m r =
     (let balStr = (if 0 \<le> balanceColumnIndex m then cell_text r (balanceColumnIndex m) else []);
          parsedBal = parseFloat (strip_commas balStr)
      in if \<not> isNaN parsedBal then toFixed2 parsedBal else balStr)"

definition build_transaction :: "date_parser \<Rightarrow> jsdate \<Rightarrow> mapping \<Rightarrow> row \<Rightarrow> transaction" where
  \<comment> \<open>lines 26 to 87: the record pushed for a row that passed the two guards\<close>
  "build_transaction P now m r =
     \<lparr>date = format_date_cell P now m (cell_text r (dateColumnIndex m)),
      chqNo = (if 0 \<le> chequeNoColumnIndex m then
                 (let c = cell_text r (chequeNoColumnIndex m) in if c = [] then ''-'' else c)
               else ''-''),
      particulars = cell_text r (descriptionColumnIndex m),
      dr = fst (debit_credit m r),
      cr = snd (debit_credit m r),
      bal = balance_text m r,
      sol = ''100''\<rparr>"

definition process_row :: "date_parser \<Rightarrow> jsdate \<Rightarrow> mapping \<Rightarrow> row option \<Rightarrow> transaction option" where
  \<comment> \<open>the loop body, lines 15 to 90: \<open>None\<close> when the row is skipped by a \<open>continue\<close>.
      Nothing between the guards and the \<open>push\<close> throws on strings, so the outer \<open>catch\<close>
      has no branch of its own.\<close>
  "process_row P now m ro =
     (case ro of
        None \<Rightarrow> None
      | Some r \<Rightarrow>
          if r = [] \<or> list_all blank_cell r then None
          else if cell_text r (dateColumnIndex m) = [] then None
          else Some (build_transaction P now m r))"

function parse_loop ::
  "date_parser \<Rightarrow> (int \<Rightarrow> jsdate) \<Rightarrow> row option list \<Rightarrow> mapping \<Rightarrow> int \<Rightarrow> transaction list \<Rightarrow> transaction list"
where
  \<comment> \<open>the \<open>for\<close> loop of line 14; \<open>clock i\<close> is what \<open>new Date()\<close> gives while row \<open>i\<close> is
      processed\<close>
  "parse_loop P clock data m i acc =
     (if i < int (length data) then
        parse_loop P clock data m (i + 1)
          (case process_row P (clock i) m (js_index data i) of
             None \<Rightarrow> acc
           | Some t \<Rightarrow> acc @ [t])
      else acc)"
  by pat_completeness auto
termination
  by (relation "measure (\<lambda>(P, clock, data, m, i, acc). nat (int (length data) - i))") auto

declare parse_loop.simps [simp del]

definition parseTransactions ::
  "date_parser \<Rightarrow> (int \<Rightarrow> jsdate) \<Rightarrow> row option list \<Rightarrow> mapping \<Rightarrow> transaction list"
where
  "parseTransactions P clock data m = parse_loop P clock data m (headerRowIndex m + 1) []"

definition cells :: "string list \<Rightarrow> row option" where
  \<comment> \<open>a row of strings as the tokenizer delivers it\<close>
  "cells xs = Some (map Some xs)"

definition default_mapping :: "string \<Rightarrow> mapping" where
  \<comment> \<open>the fallback descriptor of \<open>handleDetectFormat\<close>, with the given date format\<close>
  "default_mapping fmt =
     \<lparr>headerRowIndex = 0, dateColumnIndex = 0, dateFormat = fmt, descriptionColumnIndex = 1,
      debitColumnIndex = 2, creditColumnIndex = 3, balanceColumnIndex = 4,
      chequeNoColumnIndex = - 1, isSingleAmountColumn = False, amountColumnIndex = - 1,
      typeColumnIndex = - 1\<rparr>"

definition const_clock :: "jsdate \<Rightarrow> int \<Rightarrow> jsdate" where
  \<comment> \<open>a clock that shows the same date during the whole run\<close>
  "const_clock d i = d"

section \<open>Notions used in the statements\<close>

definition row_emits :: "mapping \<Rightarrow> row option \<Rightarrow> bool" where
  \<comment> \<open>the rows that the specification says produce a Transaction: present, not of length
      zero, not all of their cells empty or white space, and with a date cell that is
      not empty once trimmed\<close>
  "row_emits m ro =
     (case ro of
        None \<Rightarrow> False
      | Some r \<Rightarrow>
          r \<noteq> [] \<and>
          \<not> list_all (\<lambda>c. case c of None \<Rightarrow> True | Some s \<Rightarrow> list_all is_ws s) r \<and>
          cell_text r (dateColumnIndex m) \<noteq> [])"

definition is_fixed2 :: "string \<Rightarrow> bool" where
  \<comment> \<open>a fixed-two-decimal string: one or more digits, a point, two digits\<close>
  "is_fixed2 s =
     (3 < length s \<and> list_all is_digit (take (length s - 3) s) \<and> s ! (length s - 3) = CHR ''.'' \<and>
      list_all is_digit (drop (length s - 2) s))"

definition is_signed_fixed2 :: "string \<Rightarrow> bool" where
  \<comment> \<open>a fixed-two-decimal string, or one after a minus sign\<close>
  "is_signed_fixed2 s = (is_fixed2 s \<or> (take 1 s = ''-'' \<and> is_fixed2 (drop 1 s)))"

fun below_1e21 :: "number \<Rightarrow> bool" where
  \<comment> \<open>finite and of magnitude below \<open>10\<^sup>2\<^sup>1\<close>\<close>
  "below_1e21 (Fin s m e) = (m * 2 ^ nat e < 10 ^ 21 * 2 ^ nat (- e))"
| "below_1e21 x = False"







subsection \<open>Example inputs\<close>

definition mid_2024 :: jsdate where
  "mid_2024 = \<lparr>year = 2024, month = 6, day = 15\<rparr>"


definition header_row :: "row option" where
  "header_row = cells [''Date'', ''Description'', ''Debit'', ''Credit'', ''Balance'']"

definition single_mapping :: "int \<Rightarrow> mapping" where
  \<comment> \<open>a single-amount descriptor: date, description and amount in columns 0, 1 and 2,
      the type column as given, no balance and no cheque column\<close>
  "single_mapping ty =
     \<lparr>headerRowIndex = 0, dateColumnIndex = 0, dateFormat = ''dd/MM/yyyy'',
      descriptionColumnIndex = 1, debitColumnIndex = - 1, creditColumnIndex = - 1,
      balanceColumnIndex = - 1, chequeNoColumnIndex = - 1, isSingleAmountColumn = True,
      amountColumnIndex = 2, typeColumnIndex = ty\<rparr>"


section \<open>Auxiliary facts\<close>

subsection \<open>Trimming\<close>

lemma dropWhile_all_iff: "list_all P (dropWhile P xs) \<longleftrightarrow> list_all P xs"
  by (induction xs) auto

lemma trim_eq_Nil_iff: "trim s = [] \<longleftrightarrow> list_all is_ws s"
proof -
  have "trim s = [] \<longleftrightarrow> list_all is_ws (rev (dropWhile is_ws s))"
    unfolding trim_def by (simp add: dropWhile_eq_Nil_conv list_all_iff)
  also have "\<dots> \<longleftrightarrow> list_all is_ws s"
    using dropWhile_all_iff[of is_ws s] by (simp add: list_all_iff)
  finally show ?thesis .
qed

lemma blank_cell_iff: "blank_cell c = (case c of None \<Rightarrow> True | Some s \<Rightarrow> list_all is_ws s)"
  by (auto simp: blank_cell_def trim_eq_Nil_iff split: option.splits)

subsection \<open>The loop as a filter over the row indices\<close>

lemma parse_loop_eq:
  "parse_loop P clock data m i acc =
     acc @ List.map_filter (\<lambda>j. process_row P (clock j) m (js_index data j)) [i..int (length data) - 1]"
proof (induction P clock data m i acc rule: parse_loop.induct)
  case (1 P clock data m i acc)
  show ?case
  proof (cases "i < int (length data)")
    case True
    then have u: "[i..int (length data) - 1] = i # [i + 1..int (length data) - 1]"
      by (simp add: upto_rec1)
    show ?thesis
      using True "1.IH"[OF True]
      by (subst parse_loop.simps) (simp add: u List.map_filter_simps split: option.splits)
  next
    case False
    then show ?thesis
      by (subst parse_loop.simps) (simp add: List.map_filter_simps)
  qed
qed

lemma process_row_eq:
  "process_row P now m ro =
     (if row_emits m ro then Some (build_transaction P now m (the ro)) else None)"
proof -
  have "blank_cell = (\<lambda>c. case c of None \<Rightarrow> True | Some s \<Rightarrow> list_all is_ws s)"
    by (rule ext) (rule blank_cell_iff)
  then show ?thesis
    by (simp add: process_row_def row_emits_def split: option.splits)
qed

lemma process_row_SomeD:
  "process_row P now m (Some r) = Some t \<Longrightarrow> t = build_transaction P now m r"
  by (simp add: process_row_def split: if_splits)

lemma dr_build: "dr (build_transaction P now m r) = fst (debit_credit m r)"
  by (simp add: build_transaction_def)

lemma cr_build: "cr (build_transaction P now m r) = snd (debit_credit m r)"
  by (simp add: build_transaction_def)

lemma bal_build: "bal (build_transaction P now m r) = balance_text m r"
  by (simp add: build_transaction_def)

lemma date_build:
  "date (build_transaction P now m r) = format_date_cell P now m (cell_text r (dateColumnIndex m))"
  by (simp add: build_transaction_def)


lemma parseTransactions_header_and_row:
  assumes "headerRowIndex m = 0"
  shows "parseTransactions P clock [h, Some r] m =
         (if row_emits m (Some r) then [build_transaction P (clock 1) m r] else [])"
proof -
  have u: "[headerRowIndex m + 1..int (length [h, Some r]) - 1] = [1]"
    using assms by (simp add: upto_rec1)
  show ?thesis
    unfolding parseTransactions_def parse_loop_eq u
    by (simp add: List.map_filter_simps js_index_def process_row_eq)
qed

lemma cell_text_emits:
  assumes "cell_text r (dateColumnIndex m) \<noteq> []"
  shows "row_emits m (Some r)"
proof -
  obtain c where c: "js_index r (dateColumnIndex m) = Some c" and tc: "trim c \<noteq> []"
    using assms by (auto simp: cell_text_def split: option.splits)
  have mem: "Some c \<in> set r"
    using c by (auto simp: js_index_def split: if_splits) (metis nth_mem nat_less_iff)
  have "\<not> list_all is_ws c" using tc by (simp add: trim_eq_Nil_iff)
  then have "\<not> (case Some c of None \<Rightarrow> True | Some s \<Rightarrow> list_all is_ws s)"
    by simp
  then have "\<not> list_all (\<lambda>c. case c of None \<Rightarrow> True | Some s \<Rightarrow> list_all is_ws s) r"
    using mem unfolding list_all_iff by blast
  moreover have "r \<noteq> []" using mem by auto
  ultimately show ?thesis using assms by (simp add: row_emits_def)
qed






subsection \<open>Digits and fixed-point text\<close>

lemma is_digit_digit_char: "d < 10 \<Longrightarrow> is_digit (digit_char d)"
  by (simp add: is_digit_def digit_char_def)

lemma is_digit_zero: "is_digit (CHR ''0'')"
  by (simp add: is_digit_def)

lemma digits_of_all_digits: "list_all is_digit (digits_of n)"
proof (induction n rule: digits_of.induct)
  case (1 n)
  show ?case
  proof (cases "n < 10")
    case True
    then show ?thesis by (subst digits_of.simps) (simp add: is_digit_digit_char)
  next
    case False
    then show ?thesis
      using "1.IH" by (subst digits_of.simps) (simp add: is_digit_digit_char)
  qed
qed


lemma pad_zeros_all_digits: "list_all is_digit s \<Longrightarrow> list_all is_digit (pad_zeros k s)"
  by (auto simp: pad_zeros_def list_all_iff is_digit_zero)

lemma length_pad_zeros: "k \<le> length (pad_zeros k s)"
  by (simp add: pad_zeros_def)

lemma is_fixed2_point:
  assumes "a \<noteq> []" "list_all is_digit a" "length b = 2" "list_all is_digit b"
  shows "is_fixed2 (a @ ''.'' @ b)"
  using assms by (simp add: is_fixed2_def nth_append)

lemma fixed_split:
  assumes "3 \<le> length ds" "list_all is_digit ds"
  shows "is_fixed2 (take (length ds - 2) ds @ ''.'' @ drop (length ds - 2) ds)"
proof (rule is_fixed2_point)
  show "take (length ds - 2) ds \<noteq> []" using assms(1) by auto
  show "list_all is_digit (take (length ds - 2) ds)"
    using assms(2) by (auto simp: list_all_iff dest: in_set_takeD)
  show "length (drop (length ds - 2) ds) = 2" using assms(1) by simp
  show "list_all is_digit (drop (length ds - 2) ds)"
    using assms(2) by (auto simp: list_all_iff dest: in_set_dropD)
qed

lemma is_fixed2_two_decimals: "is_fixed2 (two_decimals n)"
  unfolding two_decimals_def Let_def
  by (rule fixed_split) (simp_all add: length_pad_zeros pad_zeros_all_digits digits_of_all_digits)

lemma two_decimals_not_Nil: "two_decimals n \<noteq> []"
  by (simp add: two_decimals_def Let_def)

lemma toFixed2_abs_fixed: "below_1e21 x \<Longrightarrow> is_fixed2 (toFixed2 (num_abs x))"
  by (cases x) (simp_all add: Let_def is_fixed2_two_decimals)

lemma toFixed2_signed_fixed: "below_1e21 x \<Longrightarrow> is_signed_fixed2 (toFixed2 x)"
  by (cases x) (simp_all add: Let_def is_fixed2_two_decimals is_signed_fixed2_def)

lemma toFixed2_gt0_fixed: "below_1e21 x \<Longrightarrow> num_gt0 x \<Longrightarrow> is_fixed2 (toFixed2 x)"
  by (cases x) (simp_all add: Let_def is_fixed2_two_decimals)

lemma toFixed2_not_Nil: "toFixed2 x \<noteq> []"
  by (cases x) (simp_all add: Let_def big_toString_def two_decimals_not_Nil)

lemma parseFloat_Nil: "parseFloat [] = NaN"
  by (simp add: parseFloat_def split_sign_def)










subsection \<open>The value \<open>10\<^sup>2\<^sup>1\<close>\<close>

lemma digit_char_eval:
  "digit_char 0 = CHR ''0''" "digit_char (Suc 0) = CHR ''1''" "digit_char 2 = CHR ''2''"
  "digit_char 3 = CHR ''3''" "digit_char 4 = CHR ''4''" "digit_char 5 = CHR ''5''"
  "digit_char 6 = CHR ''6''" "digit_char 7 = CHR ''7''" "digit_char 8 = CHR ''8''"
  "digit_char 9 = CHR ''9''"
  by code_simp+

lemma to_double_1e21: "to_double False 1000000000000000000000 (Suc 0) = Fin False 7629394531250000 17"
  by (simp add: to_double_def bits.simps round_half_even_def Let_def)

lemma to_double_minus_1e21: "to_double True 1000000000000000000000 (Suc 0) = Fin True 7629394531250000 17"
  by (simp add: to_double_def bits.simps round_half_even_def Let_def)

lemma parseFloat_1e21: "parseFloat ''1000000000000000000000'' = Fin False 7629394531250000 17"
  by (simp add: parseFloat_def split_sign_def is_ws_def is_digit_def exponent_part_def
      nat_of_digits_def digit_val_def to_double_1e21 Let_def)

lemma parseFloat_minus_1e21: "parseFloat ''-1000000000000000000000'' = Fin True 7629394531250000 17"
  by (simp add: parseFloat_def split_sign_def is_ws_def is_digit_def exponent_part_def
      nat_of_digits_def digit_val_def to_double_minus_1e21 Let_def)

lemma digits_of_1e21: "digits_of 1000000000000000000000 = ''1000000000000000000000''"
  by (simp add: digits_of.simps digit_char_eval)

lemma shortest_digits_1e21: "shortest_digits 1000000000000000000000 22 (Suc 0) = (Suc 0, 22)"
  by (subst shortest_digits.simps) (simp add: to_double_1e21 Let_def)

lemma big_toString_1e21: "big_toString 1000000000000000000000 = ''1e+21''"
proof -
  have n: "length (digits_of 1000000000000000000000) = 22"
    unfolding digits_of_1e21 by simp
  have d1: "digits_of (Suc 0) = ''1''"
    by (simp add: digits_of.simps digit_char_eval)
  have d21: "digits_of 21 = ''21''"
    by (simp add: digits_of.simps digit_char_eval)
  have s: "shortest_digits 1000000000000000000000 22 1 = (Suc 0, 22)"
    using shortest_digits_1e21 by simp
  show ?thesis
    unfolding big_toString_def Let_def n s fst_conv snd_conv d1
    by (simp add: d21)
qed

lemma toFixed2_1e21: "toFixed2 (Fin False 7629394531250000 17) = ''1e+21''"
proof -
  have n: "(7629394531250000 * 2 ^ nat 17) div 2 ^ nat (- 17) = (1000000000000000000000::nat)"
    by simp
  have c: "(10::nat) ^ 21 * 2 ^ nat (- 17) \<le> 7629394531250000 * 2 ^ nat 17"
    by simp
  show ?thesis
    unfolding toFixed2.simps Let_def n using c by (simp add: big_toString_1e21)
qed

lemma not_fixed2_1e21: "\<not> is_fixed2 ''1e+21''" "\<not> is_signed_fixed2 ''1e+21''"
  by code_simp+

lemma strip_commas_1e21:
  "strip_commas ''1000000000000000000000'' = ''1000000000000000000000''"
  "strip_commas ''-1000000000000000000000'' = ''-1000000000000000000000''"
  by code_simp+

subsection \<open>Reading back a written date\<close>







lemma tokenize_Nil_iff: "tokenize fmt = Some [] \<longleftrightarrow> fmt = []"
proof (cases fmt)
  case Nil
  then show ?thesis by simp
next
  case (Cons c cs)
  have "classify c n \<noteq> Some []" if "0 < n" for n
    using that by (auto simp: classify_def)
  then show ?thesis using Cons by (auto split: option.splits)
qed




subsection \<open>Formats that leave nothing to the reference date\<close>





section \<open>The claims\<close>

text \<open>
  The statements about one row are about \<open>process_row\<close>, the body of the loop, and about
  \<open>build_transaction\<close>, the record it pushes; \<open>parseTransactions\<close> collects them in row
  order. A statement with a parameter \<open>P\<close> holds for every behaviour of the date
  library; a statement about \<open>date_fns_parse\<close> holds for the patterns of date-fns
  modelled above.
\<close>

text \<open>
  C1. For the rows \<open>[header, ["01/02/2024", "Coffee", "50.00", "", "1000.00"]]\<close> and the
  default dual-column descriptor with the date format \<open>MM/dd/yyyy\<close>, the normalizer
  produces exactly one Transaction: date \<open>02-01-2024\<close>, particulars \<open>Coffee\<close>, dr
  \<open>50.00\<close>, cr empty, bal \<open>1000.00\<close>, chqNo \<open>-\<close>, sol \<open>100\<close>. This holds whatever the
  header row is and whatever the clock shows.
\<close>

theorem C1_end_to_end_dual:
  "parseTransactions date_fns_parse clock
     [header, cells [''01/02/2024'', ''Coffee'', ''50.00'', [], ''1000.00'']]
     (default_mapping ''MM/dd/yyyy'') =
   [\<lparr>date = ''02-01-2024'', chqNo = ''-'', particulars = ''Coffee'', dr = ''50.00'', cr = [],
     bal = ''1000.00'', sol = ''100''\<rparr>]"
proof -
  have r: "process_row date_fns_parse now (default_mapping ''MM/dd/yyyy'')
             (cells [''01/02/2024'', ''Coffee'', ''50.00'', [], ''1000.00'']) =
           Some \<lparr>date = ''02-01-2024'', chqNo = ''-'', particulars = ''Coffee'', dr = ''50.00'',
                 cr = [], bal = ''1000.00'', sol = ''100''\<rparr>" for now
    by code_simp
  have h: "headerRowIndex (default_mapping ''MM/dd/yyyy'') + 1 = 1"
    by (simp add: default_mapping_def)
  have u: "[1..int (length [header, cells [''01/02/2024'', ''Coffee'', ''50.00'', [], ''1000.00'']]) - 1] = [1]"
    by (simp add: upto_rec1)
  show ?thesis
    unfolding parseTransactions_def parse_loop_eq h u
    by (simp add: List.map_filter_simps js_index_def r)
qed

theorem C1_end_to_end_dual_witness:
  "parseTransactions date_fns_parse (const_clock mid_2024)
     [header_row, cells [''01/02/2024'', ''Coffee'', ''50.00'', [], ''1000.00'']]
     (default_mapping ''MM/dd/yyyy'') =
   [\<lparr>date = ''02-01-2024'', chqNo = ''-'', particulars = ''Coffee'', dr = ''50.00'', cr = [],
     bal = ''1000.00'', sol = ''100''\<rparr>]"
  by (rule C1_end_to_end_dual)

text \<open>
  C2, as the code has it. Under the dual-column policy, for every row that produces a
  Transaction, with \<open>x\<close> the number that \<open>parseFloat\<close> reads from the debit cell after the
  commas are removed (the empty text when the debit index is negative): dr is
  \<open>x.toFixed(2)\<close> when \<open>x > 0\<close> and the empty string otherwise, so dr is not empty if and
  only if the cell parses to a number above zero, and a zero-valued or blank cell never
  yields \<open>0.00\<close>; dr is a fixed-two-decimal string whenever \<open>0 < x < 10\<^sup>2\<^sup>1\<close>; the cell
  \<open>1,234.50\<close> gives \<open>1234.50\<close>. The same holds for cr and the credit cell. (For
  \<open>x \<ge> 10\<^sup>2\<^sup>1\<close> and for \<open>Infinity\<close>, \<open>toFixed\<close> writes exponent notation or \<open>Infinity\<close>:
  see the counterexample.)
\<close>

theorem C2_dual_amounts:
  assumes "\<not> isSingleAmountColumn m"
    and "process_row P now m (Some r) = Some t"
    and "x = parseFloat (strip_commas (if 0 \<le> debitColumnIndex m then cell_text r (debitColumnIndex m) else []))"
    and "y = parseFloat (strip_commas (if 0 \<le> creditColumnIndex m then cell_text r (creditColumnIndex m) else []))"
  shows "(dr t = (if num_gt0 x then toFixed2 x else [])) \<and>
         (cr t = (if num_gt0 y then toFixed2 y else [])) \<and>
         (dr t \<noteq> [] \<longleftrightarrow> num_gt0 x) \<and>
         (cr t \<noteq> [] \<longleftrightarrow> num_gt0 y) \<and>
         (num_gt0 x \<and> below_1e21 x \<longrightarrow> is_fixed2 (dr t)) \<and>
         (num_gt0 y \<and> below_1e21 y \<longrightarrow> is_fixed2 (cr t)) \<and>
         (0 \<le> debitColumnIndex m \<and> cell_text r (debitColumnIndex m) = ''1,234.50'' \<longrightarrow> dr t = ''1234.50'') \<and>
         (0 \<le> creditColumnIndex m \<and> cell_text r (creditColumnIndex m) = ''1,234.50'' \<longrightarrow> cr t = ''1234.50'')"
proof -
  have t: "t = build_transaction P now m r"
    using assms(2) by (rule process_row_SomeD)
  have nn: "num_gt0 z \<Longrightarrow> \<not> isNaN z" for z
    by (cases z) (simp_all add: isNaN_def)
  have d: "dr t = (if num_gt0 x then toFixed2 x else [])"
    unfolding t dr_build using assms(1,3) nn[of x]
    by (auto simp: debit_credit_def Let_def)
  have c: "cr t = (if num_gt0 y then toFixed2 y else [])"
    unfolding t cr_build using assms(1,4) nn[of y]
    by (auto simp: debit_credit_def Let_def)
  have ex: "toFixed2 (parseFloat (strip_commas ''1,234.50'')) = ''1234.50''"
    by code_simp
  have gt: "num_gt0 (parseFloat (strip_commas ''1,234.50''))"
    by code_simp
  have e1: "0 \<le> debitColumnIndex m \<and> cell_text r (debitColumnIndex m) = ''1,234.50'' \<longrightarrow> dr t = ''1234.50''"
    using d assms(3) ex gt by simp
  have e2: "0 \<le> creditColumnIndex m \<and> cell_text r (creditColumnIndex m) = ''1,234.50'' \<longrightarrow> cr t = ''1234.50''"
    using c assms(4) ex gt by simp
  show ?thesis
    using d c e1 e2 by (simp add: toFixed2_not_Nil toFixed2_gt0_fixed)
qed

theorem C2_dual_amounts_witness:
  "process_row date_fns_parse mid_2024 (default_mapping ''dd/MM/yyyy'')
     (cells [''01/02/2024'', ''Rent'', ''1,234.50'', ''0'', ''10.00'']) =
   Some \<lparr>date = ''01-02-2024'', chqNo = ''-'', particulars = ''Rent'', dr = ''1234.50'', cr = [],
     bal = ''10.00'', sol = ''100''\<rparr> \<and>
   is_fixed2 ''1234.50''"
proof -
  let ?m = "default_mapping ''dd/MM/yyyy''"
  let ?r = "[Some ''01/02/2024'', Some ''Rent'', Some ''1,234.50'', Some ''0'', Some ''10.00'']"
  let ?t = "\<lparr>date = ''01-02-2024'', chqNo = ''-'', particulars = ''Rent'', dr = ''1234.50'', cr = [],
     bal = ''10.00'', sol = ''100''\<rparr>"
  let ?x = "parseFloat (strip_commas (if 0 \<le> debitColumnIndex ?m then cell_text ?r (debitColumnIndex ?m) else []))"
  have s: "\<not> isSingleAmountColumn ?m" by (simp add: default_mapping_def)
  have p: "process_row date_fns_parse mid_2024 ?m (Some ?r) = Some ?t" by code_simp
  have x: "num_gt0 ?x" "below_1e21 ?x" by code_simp+
  have "num_gt0 ?x \<and> below_1e21 ?x \<longrightarrow> is_fixed2 (dr ?t)"
    using C2_dual_amounts[OF s p refl refl] by blast
  then have "is_fixed2 (dr ?t)" using x by blast
  then show ?thesis using p by (simp add: cells_def)
qed

text \<open>
  The debit cell \<open>1000000000000000000000\<close> parses to \<open>10\<^sup>2\<^sup>1 > 0\<close>, and dr is \<open>1e+21\<close>,
  which is not a fixed-two-decimal string.
\<close>

theorem C2_counterexample:
  "map dr (parseTransactions date_fns_parse (const_clock mid_2024)
     [header_row, cells [''01/02/2024'', ''Rent'', ''1000000000000000000000'', [], ''5.00'']]
     (default_mapping ''dd/MM/yyyy'')) = [''1e+21''] \<and>
   num_gt0 (parseFloat (strip_commas ''1000000000000000000000'')) \<and>
   \<not> is_fixed2 ''1e+21''"
proof -
  let ?m = "default_mapping ''dd/MM/yyyy''"
  let ?r = "[Some ''01/02/2024'', Some ''Rent'', Some ''1000000000000000000000'', Some [], Some ''5.00'']"
  have e: "row_emits ?m (Some ?r)" by code_simp
  have h: "headerRowIndex ?m = 0" by (simp add: default_mapping_def)
  have c: "cell_text ?r 2 = ''1000000000000000000000''" by code_simp
  have d: "fst (debit_credit ?m ?r) = ''1e+21''"
    by (simp add: debit_credit_def default_mapping_def Let_def c strip_commas_1e21 parseFloat_1e21
        toFixed2_1e21 big_toString_1e21 isNaN_def)
  have p: "parseTransactions date_fns_parse (const_clock mid_2024)
             [header_row, cells [''01/02/2024'', ''Rent'', ''1000000000000000000000'', [], ''5.00'']] ?m =
           [build_transaction date_fns_parse (const_clock mid_2024 1) ?m ?r]"
    using parseTransactions_header_and_row[OF h, of date_fns_parse "const_clock mid_2024" header_row ?r] e
    by (simp add: cells_def)
  have g: "num_gt0 (parseFloat (strip_commas ''1000000000000000000000''))"
    by (simp add: strip_commas_1e21 parseFloat_1e21)
  show ?thesis
    unfolding p using d g not_fixed2_1e21 by (simp add: dr_build)
qed






text \<open>
  C5, as the code has it. Under the single-amount policy with a type column index that is
  not negative, for every row that produces a Transaction and whose amount cell parses
  (after the commas are removed): when the type cell, trimmed and in upper case, is
  \<open>DR\<close>, \<open>DEBIT\<close> or \<open>WITHDRAWAL\<close>, dr is \<open>toFixed(2)\<close> of the absolute amount and cr is
  empty; for any other type value that is not empty, cr is \<open>toFixed(2)\<close> of the absolute
  amount and dr is empty. That text is a fixed-two-decimal string whenever the amount is
  finite and below \<open>10\<^sup>2\<^sup>1\<close> in magnitude.
\<close>

theorem C5_single_amount_typed:
  assumes "isSingleAmountColumn m"
    and "0 \<le> typeColumnIndex m"
    and "process_row P now m (Some r) = Some t"
    and "amount = parseFloat (strip_commas (cell_text r (amountColumnIndex m)))"
    and "\<not> isNaN amount"
    and "typeStr = toUpperCase (cell_text r (typeColumnIndex m))"
  shows "(typeStr = ''DR'' \<or> typeStr = ''DEBIT'' \<or> typeStr = ''WITHDRAWAL'' \<longrightarrow>
            dr t = toFixed2 (num_abs amount) \<and> cr t = []) \<and>
         (cell_text r (typeColumnIndex m) \<noteq> [] \<and> typeStr \<noteq> ''DR'' \<and> typeStr \<noteq> ''DEBIT'' \<and>
          typeStr \<noteq> ''WITHDRAWAL'' \<longrightarrow>
            cr t = toFixed2 (num_abs amount) \<and> dr t = []) \<and>
         (below_1e21 amount \<longrightarrow> is_fixed2 (toFixed2 (num_abs amount)))"
proof -
  have t: "t = build_transaction P now m r"
    using assms(3) by (rule process_row_SomeD)
  show ?thesis
    unfolding t dr_build cr_build using assms(1,2,4,5,6)
    by (auto simp: debit_credit_def Let_def toFixed2_abs_fixed)
qed

theorem C5_single_amount_typed_witness:
  "process_row date_fns_parse mid_2024 (single_mapping 3)
     (cells [''01/02/2024'', ''ATM'', ''1,250.5'', '' debit '']) =
   Some \<lparr>date = ''01-02-2024'', chqNo = ''-'', particulars = ''ATM'', dr = ''1250.50'', cr = [],
     bal = [], sol = ''100''\<rparr> \<and>
   toUpperCase (cell_text [Some ''01/02/2024'', Some ''ATM'', Some ''1,250.5'', Some '' debit ''] 3) = ''DEBIT'' \<and>
   is_fixed2 ''1250.50''"
proof -
  let ?m = "single_mapping 3"
  let ?r = "[Some ''01/02/2024'', Some ''ATM'', Some ''1,250.5'', Some '' debit '']"
  let ?t = "\<lparr>date = ''01-02-2024'', chqNo = ''-'', particulars = ''ATM'', dr = ''1250.50'', cr = [],
     bal = [], sol = ''100''\<rparr>"
  let ?a = "parseFloat (strip_commas (cell_text ?r (amountColumnIndex ?m)))"
  have s: "isSingleAmountColumn ?m" "0 \<le> typeColumnIndex ?m" by (simp_all add: single_mapping_def)
  have p: "process_row date_fns_parse mid_2024 ?m (Some ?r) = Some ?t" by code_simp
  have n: "\<not> isNaN ?a" by code_simp
  have b: "below_1e21 ?a" by code_simp
  have u: "toUpperCase (cell_text ?r (typeColumnIndex ?m)) = ''DEBIT''" by code_simp
  have u3: "toUpperCase (cell_text ?r 3) = ''DEBIT''" by code_simp
  note th = C5_single_amount_typed[OF s p refl n refl]
  have "dr ?t = toFixed2 (num_abs ?a)" using th u by blast
  moreover have "is_fixed2 (toFixed2 (num_abs ?a))" using th b by blast
  ultimately have "is_fixed2 ''1250.50''" by simp
  then show ?thesis using p u3 by (simp add: cells_def)
qed

text \<open>
  The amount \<open>1000000000000000000000\<close> with the type \<open>DR\<close> gives the dr \<open>1e+21\<close>, which is
  not a fixed-two-decimal string.
\<close>

theorem C5_counterexample:
  "map dr (parseTransactions date_fns_parse (const_clock mid_2024)
     [header_row, cells [''01/02/2024'', ''Wire'', ''1000000000000000000000'', ''DR'']]
     (single_mapping 3)) = [''1e+21''] \<and>
   \<not> isNaN (parseFloat (strip_commas ''1000000000000000000000'')) \<and>
   \<not> is_fixed2 ''1e+21''"
proof -
  let ?m = "single_mapping 3"
  let ?r = "[Some ''01/02/2024'', Some ''Wire'', Some ''1000000000000000000000'', Some ''DR'']"
  have e: "row_emits ?m (Some ?r)" by code_simp
  have h: "headerRowIndex ?m = 0" by (simp add: single_mapping_def)
  have c: "cell_text ?r 2 = ''1000000000000000000000''" "toUpperCase (cell_text ?r 3) = ''DR''"
    by code_simp+
  have d: "fst (debit_credit ?m ?r) = ''1e+21''"
    by (simp add: debit_credit_def single_mapping_def Let_def c strip_commas_1e21 parseFloat_1e21
        toFixed2_1e21 big_toString_1e21 isNaN_def)
  have g: "\<not> isNaN (parseFloat (strip_commas ''1000000000000000000000''))"
    by (simp add: strip_commas_1e21 parseFloat_1e21 isNaN_def)
  show ?thesis
    using parseTransactions_header_and_row[OF h, of date_fns_parse "const_clock mid_2024" header_row ?r]
      e d g not_fixed2_1e21
    by (simp add: cells_def dr_build)
qed

text \<open>
  C6, as the code has it. Under the single-amount policy with a negative type column
  index, for every row that produces a Transaction: a negative amount gives dr, a parsed
  amount that is not negative gives cr, in both cases \<open>toFixed(2)\<close> of the absolute value
  with the other side empty; an amount cell that does not parse gives both sides empty.
  That text is a fixed-two-decimal string whenever the amount is finite and below
  \<open>10\<^sup>2\<^sup>1\<close> in magnitude. The amount cell \<open>-75.00\<close> gives dr \<open>75.00\<close> and cr empty.
\<close>

theorem C6_single_amount_by_sign:
  assumes "isSingleAmountColumn m"
    and "typeColumnIndex m < 0"
    and "process_row P now m (Some r) = Some t"
    and "amount = parseFloat (strip_commas (cell_text r (amountColumnIndex m)))"
  shows "(num_lt0 amount \<longrightarrow> dr t = toFixed2 (num_abs amount) \<and> cr t = []) \<and>
         (\<not> isNaN amount \<and> \<not> num_lt0 amount \<longrightarrow> cr t = toFixed2 (num_abs amount) \<and> dr t = []) \<and>
         (isNaN amount \<longrightarrow> dr t = [] \<and> cr t = []) \<and>
         (below_1e21 amount \<longrightarrow> is_fixed2 (toFixed2 (num_abs amount))) \<and>
         (cell_text r (amountColumnIndex m) = ''-75.00'' \<longrightarrow> dr t = ''75.00'' \<and> cr t = [])"
proof -
  have t: "t = build_transaction P now m r"
    using assms(3) by (rule process_row_SomeD)
  have nn: "num_lt0 z \<Longrightarrow> \<not> isNaN z" for z
    by (cases z) (simp_all add: isNaN_def)
  have ex: "toFixed2 (num_abs (parseFloat (strip_commas ''-75.00''))) = ''75.00''"
    by code_simp
  have lt: "num_lt0 (parseFloat (strip_commas ''-75.00''))"
    by code_simp
  have a: "num_lt0 amount \<longrightarrow> dr t = toFixed2 (num_abs amount) \<and> cr t = []"
    unfolding t dr_build cr_build using assms(1,2,4) nn[of amount]
    by (auto simp: debit_credit_def Let_def)
  have b: "\<not> isNaN amount \<and> \<not> num_lt0 amount \<longrightarrow> cr t = toFixed2 (num_abs amount) \<and> dr t = []"
    unfolding t dr_build cr_build using assms(1,2,4)
    by (auto simp: debit_credit_def Let_def)
  have c: "isNaN amount \<longrightarrow> dr t = [] \<and> cr t = []"
    unfolding t dr_build cr_build using assms(1,2,4)
    by (auto simp: debit_credit_def Let_def)
  have d: "cell_text r (amountColumnIndex m) = ''-75.00'' \<longrightarrow> dr t = ''75.00'' \<and> cr t = []"
    using a assms(4) ex lt by simp
  show ?thesis
    using a b c d by (simp add: toFixed2_abs_fixed)
qed

theorem C6_single_amount_by_sign_witness:
  "map_option dr (process_row date_fns_parse mid_2024 (single_mapping (- 1))
     (cells [''05/03/2024'', ''Card'', ''-75.00''])) = Some ''75.00'' \<and>
   map_option cr (process_row date_fns_parse mid_2024 (single_mapping (- 1))
     (cells [''05/03/2024'', ''Card'', ''-75.00''])) = Some []"
proof -
  let ?m = "single_mapping (- 1)"
  let ?r = "[Some ''05/03/2024'', Some ''Card'', Some ''-75.00'']"
  let ?t = "build_transaction date_fns_parse mid_2024 ?m ?r"
  have s: "isSingleAmountColumn ?m" "typeColumnIndex ?m < 0" by (simp_all add: single_mapping_def)
  have e: "row_emits ?m (Some ?r)" by code_simp
  have p: "process_row date_fns_parse mid_2024 ?m (Some ?r) = Some ?t"
    using e by (simp add: process_row_eq)
  have c: "cell_text ?r (amountColumnIndex ?m) = ''-75.00''" by code_simp
  have "dr ?t = ''75.00'' \<and> cr ?t = []"
    using C6_single_amount_by_sign[OF s p refl] c by blast
  then show ?thesis using p by (simp add: cells_def)
qed

text \<open>
  The amount \<open>-1000000000000000000000\<close> is negative and gives the dr \<open>1e+21\<close>, which is
  not a fixed-two-decimal string.
\<close>

theorem C6_counterexample:
  "map dr (parseTransactions date_fns_parse (const_clock mid_2024)
     [header_row, cells [''01/02/2024'', ''Wire'', ''-1000000000000000000000'']]
     (single_mapping (- 1))) = [''1e+21''] \<and>
   num_lt0 (parseFloat (strip_commas ''-1000000000000000000000'')) \<and>
   \<not> is_fixed2 ''1e+21''"
proof -
  let ?m = "single_mapping (- 1)"
  let ?r = "[Some ''01/02/2024'', Some ''Wire'', Some ''-1000000000000000000000'']"
  have e: "row_emits ?m (Some ?r)" by code_simp
  have h: "headerRowIndex ?m = 0" by (simp add: single_mapping_def)
  have c: "cell_text ?r 2 = ''-1000000000000000000000''" by code_simp
  have d: "fst (debit_credit ?m ?r) = ''1e+21''"
    by (simp add: debit_credit_def single_mapping_def Let_def c strip_commas_1e21 parseFloat_minus_1e21
        toFixed2_1e21 big_toString_1e21 isNaN_def)
  have g: "num_lt0 (parseFloat (strip_commas ''-1000000000000000000000''))"
    by (simp add: strip_commas_1e21 parseFloat_minus_1e21)
  show ?thesis
    using parseTransactions_header_and_row[OF h, of date_fns_parse "const_clock mid_2024" header_row ?r]
      e d g not_fixed2_1e21
    by (simp add: cells_def dr_build)
qed



text \<open>
  C8, as the code has it. Field degradation never drops a row. Every row whose trimmed
  date cell is not empty produces its Transaction; when there is no date format, or the
  date cell does not parse under it (the parser returns the invalid date or throws), the
  date is the trimmed cell text as it stands. The bal is empty when the balance index is
  negative; it is the trimmed cell text when that text (after the commas are removed)
  does not parse, and \<open>toFixed(2)\<close> of the parsed value when it does: a fixed-two-decimal
  string, with a minus sign for a negative value, whenever the value is finite and below
  \<open>10\<^sup>2\<^sup>1\<close> in magnitude.
\<close>

theorem C8_field_degradation:
  assumes "cell_text r (dateColumnIndex m) \<noteq> []"
    and "t = build_transaction P now m r"
    and "b = parseFloat (strip_commas (cell_text r (balanceColumnIndex m)))"
  shows "process_row P now m (Some r) = Some t \<and>
         (dateFormat m = [] \<or> P (cell_text r (dateColumnIndex m)) (dateFormat m) now = Invalid_Date \<or>
          P (cell_text r (dateColumnIndex m)) (dateFormat m) now = Threw \<longrightarrow>
            date t = cell_text r (dateColumnIndex m)) \<and>
         (balanceColumnIndex m < 0 \<longrightarrow> bal t = []) \<and>
         (0 \<le> balanceColumnIndex m \<and> isNaN b \<longrightarrow> bal t = cell_text r (balanceColumnIndex m)) \<and>
         (0 \<le> balanceColumnIndex m \<and> \<not> isNaN b \<longrightarrow> bal t = toFixed2 b) \<and>
         (below_1e21 b \<longrightarrow> is_signed_fixed2 (toFixed2 b))"
proof -
  have p: "process_row P now m (Some r) = Some t"
    using cell_text_emits[OF assms(1)] assms(2) by (simp add: process_row_eq)
  have d: "dateFormat m = [] \<or> P (cell_text r (dateColumnIndex m)) (dateFormat m) now = Invalid_Date \<or>
          P (cell_text r (dateColumnIndex m)) (dateFormat m) now = Threw \<longrightarrow>
            date t = cell_text r (dateColumnIndex m)"
    unfolding assms(2) date_build by (auto simp: format_date_cell_def)
  have b1: "balanceColumnIndex m < 0 \<longrightarrow> bal t = []"
    unfolding assms(2) bal_build by (simp add: balance_text_def strip_commas_def parseFloat_Nil isNaN_def)
  have b2: "0 \<le> balanceColumnIndex m \<and> isNaN b \<longrightarrow> bal t = cell_text r (balanceColumnIndex m)"
    unfolding assms(2) bal_build using assms(3) by (simp add: balance_text_def Let_def)
  have b3: "0 \<le> balanceColumnIndex m \<and> \<not> isNaN b \<longrightarrow> bal t = toFixed2 b"
    unfolding assms(2) bal_build using assms(3) by (simp add: balance_text_def Let_def)
  show ?thesis
    using p d b1 b2 b3 by (simp add: toFixed2_signed_fixed)
qed

theorem C8_field_degradation_witness:
  "map_option date (process_row date_fns_parse mid_2024 (default_mapping ''dd/MM/yyyy'')
     (cells [''31/02/2024'', ''Fee'', ''5.00'', [], ''N/A''])) = Some ''31/02/2024'' \<and>
   map_option bal (process_row date_fns_parse mid_2024 (default_mapping ''dd/MM/yyyy'')
     (cells [''31/02/2024'', ''Fee'', ''5.00'', [], ''N/A''])) = Some ''N/A''"
proof -
  let ?m = "default_mapping ''dd/MM/yyyy''"
  let ?r = "[Some ''31/02/2024'', Some ''Fee'', Some ''5.00'', Some [], Some ''N/A'']"
  let ?t = "build_transaction date_fns_parse mid_2024 ?m ?r"
  let ?b = "parseFloat (strip_commas (cell_text ?r (balanceColumnIndex ?m)))"
  have c: "cell_text ?r (dateColumnIndex ?m) = ''31/02/2024''"
    "cell_text ?r (balanceColumnIndex ?m) = ''N/A''" by code_simp+
  have ne: "cell_text ?r (dateColumnIndex ?m) \<noteq> []" using c by simp
  have i: "date_fns_parse (cell_text ?r (dateColumnIndex ?m)) (dateFormat ?m) mid_2024 = Invalid_Date"
    by code_simp
  have n: "0 \<le> balanceColumnIndex ?m" "isNaN ?b" by code_simp+
  note th = C8_field_degradation[OF ne refl refl, of date_fns_parse mid_2024]
  have "process_row date_fns_parse mid_2024 ?m (Some ?r) = Some ?t" using th by blast
  moreover have "date ?t = ''31/02/2024''" using th i c(1) by simp
  moreover have "bal ?t = ''N/A''" using th n c(2) by simp
  ultimately show ?thesis by (simp add: cells_def)
qed

text \<open>
  The balance cell \<open>1000000000000000000000\<close> parses, and the bal is \<open>1e+21\<close>, which is not
  a fixed-two-decimal string.
\<close>

theorem C8_counterexample:
  "map bal (parseTransactions date_fns_parse (const_clock mid_2024)
     [header_row, cells [''01/02/2024'', ''Wire'', ''5.00'', [], ''1000000000000000000000'']]
     (default_mapping ''dd/MM/yyyy'')) = [''1e+21''] \<and>
   \<not> isNaN (parseFloat (strip_commas ''1000000000000000000000'')) \<and>
   \<not> is_signed_fixed2 ''1e+21''"
proof -
  let ?m = "default_mapping ''dd/MM/yyyy''"
  let ?r = "[Some ''01/02/2024'', Some ''Wire'', Some ''5.00'', Some [], Some ''1000000000000000000000'']"
  have e: "row_emits ?m (Some ?r)" by code_simp
  have h: "headerRowIndex ?m = 0" by (simp add: default_mapping_def)
  have c: "cell_text ?r 4 = ''1000000000000000000000''" by code_simp
  have d: "balance_text ?m ?r = ''1e+21''"
    by (simp add: balance_text_def default_mapping_def Let_def c strip_commas_1e21 parseFloat_1e21
        toFixed2_1e21 big_toString_1e21 isNaN_def)
  have g: "\<not> isNaN (parseFloat (strip_commas ''1000000000000000000000''))"
    by (simp add: strip_commas_1e21 parseFloat_1e21 isNaN_def)
  show ?thesis
    using parseTransactions_header_and_row[OF h, of date_fns_parse "const_clock mid_2024" header_row ?r]
      e d g not_fixed2_1e21
    by (simp add: cells_def bal_build)
qed




text \<open>
  C10. Under the single-amount policy with a type column index that is not negative, for
  every row that produces a Transaction and whose amount cell parses: when the type cell
  is missing, empty or white space only, the absolute amount goes to cr and dr is empty,
  whatever the sign of the amount.
\<close>

theorem C10_blank_type_is_credit:
  assumes "isSingleAmountColumn m"
    and "0 \<le> typeColumnIndex m"
    and "process_row P now m (Some r) = Some t"
    and "amount = parseFloat (strip_commas (cell_text r (amountColumnIndex m)))"
    and "\<not> isNaN amount"
    and "case js_index r (typeColumnIndex m) of None \<Rightarrow> True | Some s \<Rightarrow> list_all is_ws s"
  shows "cr t = toFixed2 (num_abs amount) \<and> dr t = []"
proof -
  have t: "t = build_transaction P now m r"
    using assms(3) by (rule process_row_SomeD)
  have ty: "cell_text r (typeColumnIndex m) = []"
    using assms(6) by (simp add: cell_text_def trim_eq_Nil_iff split: option.splits)
  show ?thesis
    unfolding t dr_build cr_build using assms(1,2,4,5) ty
    by (simp add: debit_credit_def Let_def toUpperCase_def)
qed

theorem C10_blank_type_is_credit_witness:
  "map_option cr (process_row date_fns_parse mid_2024 (single_mapping 3)
     (cells [''01/02/2024'', ''ATM'', ''-40'', ''  ''])) = Some ''40.00'' \<and>
   map_option dr (process_row date_fns_parse mid_2024 (single_mapping 3)
     (cells [''01/02/2024'', ''ATM'', ''-40'', ''  ''])) = Some []"
proof -
  let ?m = "single_mapping 3"
  let ?r = "[Some ''01/02/2024'', Some ''ATM'', Some ''-40'', Some ''  '']"
  let ?t = "build_transaction date_fns_parse mid_2024 ?m ?r"
  let ?a = "parseFloat (strip_commas (cell_text ?r (amountColumnIndex ?m)))"
  have s: "isSingleAmountColumn ?m" "0 \<le> typeColumnIndex ?m" by (simp_all add: single_mapping_def)
  have e: "row_emits ?m (Some ?r)" by code_simp
  have p: "process_row date_fns_parse mid_2024 ?m (Some ?r) = Some ?t"
    using e by (simp add: process_row_eq)
  have n: "\<not> isNaN ?a" by code_simp
  have w: "case js_index ?r (typeColumnIndex ?m) of None \<Rightarrow> True | Some s \<Rightarrow> list_all is_ws s"
    by code_simp
  have v: "toFixed2 (num_abs ?a) = ''40.00''" by code_simp
  have "cr ?t = toFixed2 (num_abs ?a) \<and> dr ?t = []"
    by (rule C10_blank_type_is_credit[OF s p refl n w])
  then show ?thesis using p v by (simp add: cells_def)
qed


end
